theory Spec2Isabelle
  imports Main "HOL-Library.AList"
begin

section \<open>JavaScript values used by the butler\<close>

text \<open>
  A plain JavaScript object with string keys is an association list of its own
  properties: a key is looked up with \<open>obj_get\<close>, and the assignment \<^verbatim>\<open>o[k] = v\<close> is
  \<open>obj_set\<close>, which replaces the value of a key the object has (the key keeps its place)
  and appends a key it has not. The keys of the token and balance objects are addresses
  and \<^verbatim>\<open>"zil"\<close>; for them, property names that JavaScript treats specially
  (\<^verbatim>\<open>__proto__\<close>, array indices) are outside the model. The parameter names of
  \<^verbatim>\<open>zilParamsToMap\<close> are any text, and the assignment there is \<open>prop_assign\<close> below.
\<close>

type_synonym 'a obj = "(string \<times> 'a) list"

definition obj_get :: "'a obj \<Rightarrow> string \<Rightarrow> 'a option" where
  "obj_get ob k = map_of ob k"

definition obj_set :: "'a obj \<Rightarrow> string \<Rightarrow> 'a \<Rightarrow> 'a obj" where
  "obj_set ob k v = AList.update k v ob"

text \<open>
  \<^verbatim>\<open>String.prototype.toLowerCase\<close> on the letters A to Z; every other character is
  kept. Addresses are hexadecimal text with the prefix \<^verbatim>\<open>0x\<close>.
\<close>

definition lower_char :: "char \<Rightarrow> char" where
  "lower_char c =
     (case map_of (zip ''ABCDEFGHIJKLMNOPQRSTUVWXYZ'' ''abcdefghijklmnopqrstuvwxyz'') c of
        Some d \<Rightarrow> d
      | None \<Rightarrow> c)"

definition toLowerCase :: "string \<Rightarrow> string" where
  "toLowerCase s = map lower_char s"

text \<open>
  A \<^verbatim>\<open>BN\<close> (bn.js, through @zilliqa-js/util) is an integer of any size. Its constructor
  from text belongs to that library and is a parameter \<open>BN :: string \<Rightarrow> int\<close> of the
  functions below; \<^verbatim>\<open>new BN(0)\<close> is \<open>0\<close>, and \<^verbatim>\<open>new BN(undefined)\<close> is \<open>0\<close> as well.
\<close>

definition BN_opt :: "(string \<Rightarrow> int) \<Rightarrow> string option \<Rightarrow> int" where
  "BN_opt BN v = (case v of None \<Rightarrow> 0 | Some s \<Rightarrow> BN s)"

section \<open>Token records\<close>

text \<open>
  \<^verbatim>\<open>TokenInfo\<close>. Optional properties (\<^verbatim>\<open>loading\<close>, \<^verbatim>\<open>listPriority\<close>, \<^verbatim>\<open>pool\<close>) are
  options; \<^verbatim>\<open>symbol\<close> and \<^verbatim>\<open>name\<close> are options too, since the refresh reads them from
  the contract's init parameters, where they may be missing. The pool type belongs to
  the SDK and is the type parameter \<open>'p\<close>.
\<close>

record 'p TokenInfo =
  initialized :: bool
  isZil :: bool
  dirty :: bool
  loading :: "bool option"
  listPriority :: "int option"
  address :: string
  decimals :: int
  symbol :: "string option"
  name :: "string option"
  balance :: int
  init_supply :: int
  balances :: "int obj"
  pool :: "'p option"

text \<open>\<^verbatim>\<open>TokenDetails\<close> of the SDK: the properties \<^verbatim>\<open>mapZilswapToken\<close> reads.\<close>

record TokenDetails =
  td_address :: string
  td_decimals :: int
  td_symbol :: string

definition mapZilswapToken :: "TokenDetails \<Rightarrow> 'p TokenInfo" where
  "mapZilswapToken zilswapToken =
     \<lparr> initialized = False,
       isZil = False,
       dirty = False,
       loading = None,
       listPriority = None,
       address = td_address zilswapToken,
       decimals = td_decimals zilswapToken,
       symbol = Some (td_symbol zilswapToken),
       name = Some [],
       balance = 0,
       init_supply = 0,
       balances = [],
       pool = None \<rparr>"

section \<open>Contract parameters\<close>

text \<open>\<^verbatim>\<open>Value\<close> of @zilliqa-js/contract: \<^verbatim>\<open>vname\<close>, \<^verbatim>\<open>type\<close>, \<^verbatim>\<open>value\<close>.\<close>

record Value =
  vname :: string
  vtype :: string
  "value" :: string

text \<open>
  The assignment \<^verbatim>\<open>output[k] = v\<close> of a text value to a property of a plain object.
  Under the key \<^verbatim>\<open>__proto__\<close> the assignment reaches the setter of
  \<^verbatim>\<open>Object.prototype\<close>, which ignores a value that is not an object: the object gets no
  property. Every other key is stored as an own property.
\<close>

definition prop_assign :: "string obj \<Rightarrow> string \<Rightarrow> string \<Rightarrow> string obj" where
  "prop_assign ob k v = (if k = ''__proto__'' then ob else obj_set ob k v)"

text \<open>
  \<^verbatim>\<open>
  const output = {};
  for (const set of params)
    output[set.vname] = set.value;
  return output;
  \<close>
\<close>

fun zilParamsToMap_loop :: "Value list \<Rightarrow> string obj \<Rightarrow> string obj" where
  "zilParamsToMap_loop [] output = output"
| "zilParamsToMap_loop (entry # params) output =
     zilParamsToMap_loop params (prop_assign output (vname entry) (value entry))"

definition zilParamsToMap :: "Value list \<Rightarrow> string obj" where
  "zilParamsToMap params = zilParamsToMap_loop params []"

section \<open>The preference reducer\<close>

text \<open>
  \<^verbatim>\<open>localStorage\<close> is a map from keys to text. The action types \<^verbatim>\<open>TYPES.INIT\<close> and
  \<^verbatim>\<open>TYPES.UPDATE\<close> are declared in another module and are a parameter of the reducer.
\<close>

type_synonym localStorage = "string \<rightharpoonup> string"

record TYPES =
  INIT :: string
  UPDATE :: string

record PreferenceState =
  theme :: string

text \<open>\<^verbatim>\<open>PreferenceStateUpdateProps\<close>: \<^verbatim>\<open>theme\<close> is optional, \<open>None\<close> when the payload has none.\<close>

record PreferenceStateUpdateProps =
  upd_theme :: "string option"

record action =
  atype :: string
  payload :: PreferenceStateUpdateProps

definition LOCAL_STORAGE_KEY_THEME :: string where
  "LOCAL_STORAGE_KEY_THEME = ''zilswap:theme''"

definition VALID_THEMES :: "string list" where
  "VALID_THEMES = [''dark'', ''light'']"

text \<open>
  \<^verbatim>\<open>initial_state\<close> is computed when the module loads, from the media query and the
  saved preference; \<^verbatim>\<open>a || b\<close> takes \<open>b\<close> when \<open>a\<close> is null or the empty string.
\<close>

definition initialTheme :: "bool \<Rightarrow> string option \<Rightarrow> string" where
  "initialTheme prefersDarkMode savedThemePreference =
     (case savedThemePreference of
        None \<Rightarrow> (if prefersDarkMode then ''dark'' else ''light'')
      | Some s \<Rightarrow> (if s = [] then (if prefersDarkMode then ''dark'' else ''light'') else s))"

definition initial_state :: "bool \<Rightarrow> string option \<Rightarrow> PreferenceState" where
  "initial_state prefersDarkMode savedThemePreference =
     (let t = initialTheme prefersDarkMode savedThemePreference
      in \<lparr> theme = (if t \<in> set VALID_THEMES then t else ''light'') \<rparr>)"

text \<open>
  \<^verbatim>\<open>
  const { theme } = updatePayload;
  if (!theme) return;
  if (theme !== currentTheme && VALID_THEMES.includes(theme))
    localStorage.setItem(LOCAL_STORAGE_KEY_THEME, theme);
  \<close>
  \<^verbatim>\<open>!theme\<close> holds for a missing theme and for the empty string.
\<close>

definition checkToSaveThemePreference ::
  "string \<Rightarrow> PreferenceStateUpdateProps \<Rightarrow> localStorage \<Rightarrow> localStorage" where
  "checkToSaveThemePreference currentTheme updatePayload ls =
     (case upd_theme updatePayload of
        None \<Rightarrow> ls
      | Some t \<Rightarrow>
          if t = [] then ls
          else if t \<noteq> currentTheme \<and> t \<in> set VALID_THEMES
               then ls(LOCAL_STORAGE_KEY_THEME \<mapsto> t)
               else ls)"

text \<open>The object spread \<^verbatim>\<open>{ ...state, ...actions.payload }\<close>.\<close>

definition spread_payload :: "PreferenceState \<Rightarrow> PreferenceStateUpdateProps \<Rightarrow> PreferenceState" where
  "spread_payload state p =
     (case upd_theme p of None \<Rightarrow> state | Some t \<Rightarrow> state\<lparr> theme := t \<rparr>)"

text \<open>
  The reducer, with the store's \<^verbatim>\<open>localStorage\<close> passed through. The state argument is
  \<open>None\<close> when Redux calls the reducer with \<^verbatim>\<open>undefined\<close>, and the default parameter
  \<^verbatim>\<open>initial_state\<close> (here \<open>init\<close>) is taken. The \<^verbatim>\<open>switch\<close> tries \<^verbatim>\<open>TYPES.INIT\<close> first.
\<close>

definition reducer ::
  "TYPES \<Rightarrow> PreferenceState \<Rightarrow> PreferenceState option \<Rightarrow> action \<Rightarrow> localStorage
     \<Rightarrow> PreferenceState \<times> localStorage" where
  "reducer T init state0 actions ls =
     (let state = (case state0 of None \<Rightarrow> init | Some s \<Rightarrow> s)
      in if atype actions = INIT T then (spread_payload state (payload actions), ls)
         else if atype actions = UPDATE T
              then (spread_payload state (payload actions),
                    checkToSaveThemePreference (theme state) (payload actions) ls)
              else (state, ls))"

section \<open>Wallet, transactions and the store\<close>

text \<open>
  \<^verbatim>\<open>ConnectedWallet\<close>: \<open>byte20\<close> and \<open>privateKey\<close> are the properties of its
  \<^verbatim>\<open>addressInfo\<close>, \<open>wallet_balance\<close> is its \<^verbatim>\<open>balance\<close>.
\<close>

record ConnectedWallet =
  byte20 :: string
  privateKey :: "string option"
  wallet_balance :: int
  network :: string

text \<open>\<^verbatim>\<open>Transaction\<close>; the receipt type belongs to the SDK and is the type parameter \<open>'r\<close>.\<close>

record 'r Transaction =
  hash :: string
  status :: string
  txReceipt :: "'r option"

text \<open>\<^verbatim>\<open>TokenState\<close>: \<open>tokens_initialized\<close> is its property \<^verbatim>\<open>initialized\<close>.\<close>

record 'p TokenState =
  tokens_initialized :: bool
  tokens :: "'p TokenInfo obj"

text \<open>
  \<^verbatim>\<open>RootState\<close>, the parts the butler reads: \<^verbatim>\<open>state.wallet.wallet\<close>, \<^verbatim>\<open>state.token\<close>
  and \<^verbatim>\<open>state.transaction.transactions\<close>.
\<close>

record ('p, 'r) RootState =
  wallet :: "ConnectedWallet option"
  token :: "'p TokenState"
  transactions :: "'r Transaction list"

text \<open>
  The payload of \<^verbatim>\<open>actions.Token.update\<close>: the address and the properties to change.
  A property the payload does not have is \<open>None\<close>. \<^verbatim>\<open>symbol\<close>, \<^verbatim>\<open>name\<close> and \<^verbatim>\<open>pool\<close>
  can be in the payload with the value \<^verbatim>\<open>undefined\<close>, which is \<open>Some None\<close>.
\<close>

record 'p TokenUpdateProps =
  u_address :: string
  u_initialized :: "bool option"
  u_isZil :: "bool option"
  u_dirty :: "bool option"
  u_loading :: "bool option"
  u_decimals :: "int option"
  u_symbol :: "string option option"
  u_name :: "string option option"
  u_balance :: "int option"
  u_init_supply :: "int option"
  u_balances :: "int obj option"
  u_pool :: "'p option option"

definition update_props :: "string \<Rightarrow> 'p TokenUpdateProps" where
  "update_props a =
     \<lparr> u_address = a, u_initialized = None, u_isZil = None, u_dirty = None,
       u_loading = None, u_decimals = None, u_symbol = None, u_name = None,
       u_balance = None, u_init_supply = None, u_balances = None, u_pool = None \<rparr>"

definition override :: "'a option \<Rightarrow> 'a \<Rightarrow> 'a" where
  "override new old = (case new of None \<Rightarrow> old | Some v \<Rightarrow> v)"

text \<open>
  Modelled from the spec: the reducers of the token, wallet and transaction stores
  (\<^verbatim>\<open>app/store\<close>) are not among the sources. The spec gives the store the actions
  \<^verbatim>\<open>Token.init(tokens)\<close>, \<^verbatim>\<open>Token.update(patch)\<close>, \<^verbatim>\<open>Token.invalidate()\<close>,
  \<^verbatim>\<open>Wallet.update(wallet)\<close> and \<^verbatim>\<open>Transaction.update(txPatch)\<close>, and says that all
  mutation of a token is a merge of a patch into the whole record through the single
  update entry point. \<open>merge_update\<close> is that merge: every property of the patch replaces
  the record's.
\<close>

definition merge_update :: "'p TokenUpdateProps \<Rightarrow> 'p TokenInfo \<Rightarrow> 'p TokenInfo" where
  "merge_update u t =
     t\<lparr> address := u_address u,
        initialized := override (u_initialized u) (initialized t),
        isZil := override (u_isZil u) (isZil t),
        dirty := override (u_dirty u) (dirty t),
        loading := (case u_loading u of None \<Rightarrow> loading t | Some b \<Rightarrow> Some b),
        decimals := override (u_decimals u) (decimals t),
        symbol := override (u_symbol u) (symbol t),
        name := override (u_name u) (name t),
        balance := override (u_balance u) (balance t),
        init_supply := override (u_init_supply u) (init_supply t),
        balances := override (u_balances u) (balances t),
        pool := override (u_pool u) (pool t) \<rparr>"

text \<open>
  Modelled from the spec: \<^verbatim>\<open>Token.update(patch)\<close> merges the patch into the record
  stored at the patch's address. The spec does not say what an update does for an
  address with no record; the model leaves the collection as it is there.
\<close>

definition Token_update :: "'p TokenUpdateProps \<Rightarrow> ('p, 'r) RootState \<Rightarrow> ('p, 'r) RootState" where
  "Token_update u st =
     (case obj_get (tokens (token st)) (u_address u) of
        None \<Rightarrow> st
      | Some t \<Rightarrow>
          st\<lparr> token := (token st)\<lparr> tokens :=
                 obj_set (tokens (token st)) (u_address u) (merge_update u t) \<rparr> \<rparr>)"

text \<open>
  Modelled from the spec: \<^verbatim>\<open>Token.init(tokens)\<close> makes the given collection the token
  collection and sets the collection's \<^verbatim>\<open>initialized\<close> flag (the initializer runs again
  only when that flag is reset).
\<close>

definition Token_init :: "'p TokenInfo obj \<Rightarrow> ('p, 'r) RootState \<Rightarrow> ('p, 'r) RootState" where
  "Token_init toks st = st\<lparr> token := \<lparr> tokens_initialized = True, tokens = toks \<rparr> \<rparr>"

text \<open>
  Modelled from the spec: \<^verbatim>\<open>Token.invalidate()\<close> marks every token in the collection
  \<^verbatim>\<open>dirty=true\<close>.
\<close>

definition Token_invalidate :: "('p, 'r) RootState \<Rightarrow> ('p, 'r) RootState" where
  "Token_invalidate st =
     st\<lparr> token := (token st)\<lparr> tokens :=
            map (\<lambda>(k, t). (k, t\<lparr> dirty := True \<rparr>)) (tokens (token st)) \<rparr> \<rparr>"

text \<open>Modelled from the spec: \<^verbatim>\<open>Wallet.update(wallet)\<close> replaces the wallet snapshot.\<close>

definition Wallet_update :: "ConnectedWallet option \<Rightarrow> ('p, 'r) RootState \<Rightarrow> ('p, 'r) RootState" where
  "Wallet_update w st = st\<lparr> wallet := w \<rparr>"

text \<open>
  Modelled from the spec: \<^verbatim>\<open>Transaction.update(txPatch)\<close> upserts the transaction record
  by hash in the ordered transaction collection: the record with the patch's hash is
  updated in its place, and a hash the collection does not have is appended.
\<close>

fun upsert :: "'r Transaction \<Rightarrow> 'r Transaction list \<Rightarrow> 'r Transaction list" where
  "upsert p [] = [p]"
| "upsert p (t # ts) =
     (if hash t = hash p then t\<lparr> status := status p, txReceipt := txReceipt p \<rparr> # ts
      else t # upsert p ts)"

text \<open>
  Modelled from the spec: the reducer of \<^verbatim>\<open>Transaction.update\<close>, which applies that upsert
  to the store's transaction collection.
\<close>

definition Transaction_update :: "'r Transaction \<Rightarrow> ('p, 'r) RootState \<Rightarrow> ('p, 'r) RootState" where
  "Transaction_update p st = st\<lparr> transactions := upsert p (transactions st) \<rparr>"

section \<open>TransactionObserver\<close>

text \<open>
  The callback given to \<^verbatim>\<open>ZilswapConnector.registerObserver\<close>, as a function of the store:
  \<^verbatim>\<open>
  dispatch(actions.Transaction.update({ hash: tx.hash, status: status, txReceipt: receipt }));
  const transactions = store.getState().transaction.transactions;
  if (transactions.find(transaction => transaction.hash === tx.hash))
    dispatch(actions.Token.invalidate());
  \<close>
  \<^verbatim>\<open>dispatch\<close> runs the reducer before it returns, so \<^verbatim>\<open>store.getState()\<close> is the store
  after the transaction update.
\<close>

definition observer_callback ::
  "string \<Rightarrow> string \<Rightarrow> 'r option \<Rightarrow> ('p, 'r) RootState \<Rightarrow> ('p, 'r) RootState" where
  "observer_callback tx_hash tx_status receipt st =
     (let st1 = Transaction_update
                  \<lparr> hash = tx_hash, status = tx_status, txReceipt = receipt \<rparr> st;
          txs = transactions st1
      in if find (\<lambda>transaction. hash transaction = tx_hash) txs \<noteq> None
         then Token_invalidate st1
         else st1)"

section \<open>BootstrapInitializer\<close>

text \<open>
  \<^verbatim>\<open>zilswapTokens.map(mapZilswapToken).forEach(token => tokens[token.address] = token)\<close>
\<close>

fun init_loop :: "'p TokenInfo list \<Rightarrow> 'p TokenInfo obj \<Rightarrow> 'p TokenInfo obj" where
  "init_loop [] toks = toks"
| "init_loop (t # rest) toks = init_loop rest (obj_set toks (address t) t)"

text \<open>
  The pseudo-token injected under the key \<^verbatim>\<open>"zil"\<close>. \<^verbatim>\<open>ZIL_HASH\<close> is a constant of the
  SDK and is the parameter \<open>ZIL_HASH\<close> here.
\<close>

definition zil_token :: "string \<Rightarrow> ConnectedWallet \<Rightarrow> 'p TokenInfo" where
  "zil_token ZIL_HASH w =
     \<lparr> initialized = True,
       isZil = True,
       dirty = False,
       loading = None,
       listPriority = Some 0,
       address = ZIL_HASH,
       decimals = 12,
       symbol = Some ''ZIL'',
       name = Some ''Zilliqa'',
       balance = wallet_balance w,
       init_supply = 0,
       balances = [(toLowerCase (byte20 w), wallet_balance w)],
       pool = None \<rparr>"

definition init_tokens :: "string \<Rightarrow> TokenDetails list \<Rightarrow> ConnectedWallet \<Rightarrow> 'p TokenInfo obj" where
  "init_tokens ZIL_HASH zilswapTokens w =
     obj_set (init_loop (map mapZilswapToken zilswapTokens) []) ''zil'' (zil_token ZIL_HASH w)"

text \<open>
  The init effect. \<open>zilswapTokens\<close> is what \<^verbatim>\<open>ZilswapConnector.getTokens()\<close> returns.
  \<^verbatim>\<open>
  if (tokenState.initialized) return;
  if (!walletState.wallet) return;
  ...
  dispatch(actions.Token.init({ tokens }));
  \<close>
\<close>

definition butler_init ::
  "string \<Rightarrow> TokenDetails list \<Rightarrow> ('p, 'r) RootState \<Rightarrow> ('p, 'r) RootState" where
  "butler_init ZIL_HASH zilswapTokens st =
     (if tokens_initialized (token st) then st
      else case wallet st of
             None \<Rightarrow> st
           | Some w \<Rightarrow> Token_init (init_tokens ZIL_HASH zilswapTokens w) st)"

section \<open>TokenRefreshScheduler\<close>

text \<open>
  A refresh task handed to \<^verbatim>\<open>runQueryToken\<close> is a closure over the loop's \<^verbatim>\<open>address\<close>
  (the key in the collection), the \<^verbatim>\<open>token\<close> read under that key and
  \<^verbatim>\<open>walletState.wallet\<close> of the render the effect belongs to.
\<close>

record 'p Task =
  task_address :: string
  task_token :: "'p TokenInfo"
  task_wallet :: "ConnectedWallet option"

text \<open>
  \<^verbatim>\<open>dispatch(actions.Token.update({ address, loading: true, dirty: false, initialized: true }))\<close>
\<close>

definition flip_props :: "string \<Rightarrow> 'p TokenUpdateProps" where
  "flip_props a =
     (update_props a)\<lparr> u_loading := Some True, u_dirty := Some False, u_initialized := Some True \<rparr>"

text \<open>
  The loop \<^verbatim>\<open>for (const address in tokenState.tokens)\<close> of the refresh effect. \<open>toks\<close> is
  \<^verbatim>\<open>tokenState.tokens\<close>, the collection the effect was rendered with; the store and the
  tasks dispatched so far are passed through. The loop only starts the tasks: each one
  runs to its first \<^verbatim>\<open>await\<close> and resolves after the loop has finished.
  \<^verbatim>\<open>
  const token = tokenState.tokens[address];
  if (token.initialized && !token.dirty) continue;
  dispatch(actions.Token.update({ address, loading: true, dirty: false, initialized: true }));
  runQueryToken(async () => { ... });
  \<close>
\<close>

fun scheduler_loop ::
  "string list \<Rightarrow> 'p TokenInfo obj \<Rightarrow> ConnectedWallet option
     \<Rightarrow> ('p, 'r) RootState \<times> 'p Task list \<Rightarrow> ('p, 'r) RootState \<times> 'p Task list" where
  "scheduler_loop [] toks w (st, tasks) = (st, tasks)"
| "scheduler_loop (a # rest) toks w (st, tasks) =
     (case obj_get toks a of
        None \<Rightarrow> scheduler_loop rest toks w (st, tasks)
      | Some t \<Rightarrow>
          if initialized t \<and> \<not> dirty t then scheduler_loop rest toks w (st, tasks)
          else scheduler_loop rest toks w
                 (Token_update (flip_props a) st,
                  tasks @ [\<lparr> task_address = a, task_token = t, task_wallet = w \<rparr>]))"

text \<open>
  One pass of the effect, run on the store whose token collection and wallet the
  component was rendered with.
\<close>

definition scheduler_pass :: "('p, 'r) RootState \<Rightarrow> ('p, 'r) RootState \<times> 'p Task list" where
  "scheduler_pass st =
     scheduler_loop (map fst (tokens (token st))) (tokens (token st)) (wallet st) (st, [])"

section \<open>BalanceReconciler\<close>

text \<open>
  What the chain connector and the wallet subsystem answer: a read either fails or
  returns a value. \<open>getInit\<close> and \<open>getBalancesMap\<close> are the reads of the contract at an
  address, \<open>getPool\<close> is \<^verbatim>\<open>ZilswapConnector.getPool\<close> (\<open>None\<close> for no pool), and
  \<open>connectWalletPrivateKey\<close> takes the private key and the network; its result's
  \<^verbatim>\<open>wallet\<close> may be missing.
\<close>

datatype 'a fetch = Failed | Fetched 'a

record 'p Chain =
  getInit :: "string \<Rightarrow> Value list fetch"
  getBalancesMap :: "string \<Rightarrow> string obj fetch"
  getPool :: "string \<Rightarrow> 'p option"
  connectWalletPrivateKey :: "string \<Rightarrow> string \<Rightarrow> ConnectedWallet option fetch"

text \<open>
  \<^verbatim>\<open>
  const balances = {};
  for (const address in contractBalanceState)
    balances[address] = new BN(contractBalanceState[address]);
  \<close>
\<close>

fun balances_loop ::
  "(string \<Rightarrow> int) \<Rightarrow> string list \<Rightarrow> string obj \<Rightarrow> int obj \<Rightarrow> int obj" where
  "balances_loop BN [] contractBalanceState acc = acc"
| "balances_loop BN (a # rest) contractBalanceState acc =
     (case obj_get contractBalanceState a of
        None \<Rightarrow> balances_loop BN rest contractBalanceState acc
      | Some v \<Rightarrow> balances_loop BN rest contractBalanceState (obj_set acc a (BN v)))"

definition balances_of :: "(string \<Rightarrow> int) \<Rightarrow> string obj \<Rightarrow> int obj" where
  "balances_of BN contractBalanceState =
     balances_loop BN (map fst contractBalanceState) contractBalanceState []"

text \<open>
  The contract-backed part of the task, up to the \<^verbatim>\<open>tokenInfo\<close> it dispatches; \<open>None\<close> when
  a read fails or the closure has no wallet (\<^verbatim>\<open>wallet.addressInfo\<close> then throws).
  \<^verbatim>\<open>
  const contract = ZilswapConnector.getZilliqa().contracts.at(address);
  const contractInitParams = await contract.getInit();
  const contractInit = zilParamsToMap(contractInitParams);
  const contractBalanceState = await getBalancesMap(contract);
  ...
  const pool = ZilswapConnector.getPool(token.address) || undefined;
  const wallet = walletState.wallet!;
  const balance = balances[wallet.addressInfo.byte20.toLowerCase()] || new BN(0)
  \<close>
\<close>

definition contract_tokenInfo ::
  "(string \<Rightarrow> int) \<Rightarrow> 'p Chain \<Rightarrow> 'p Task \<Rightarrow> 'p TokenUpdateProps option" where
  "contract_tokenInfo BN chain task =
     (case getInit chain (task_address task) of
        Failed \<Rightarrow> None
      | Fetched contractInitParams \<Rightarrow>
          (case getBalancesMap chain (task_address task) of
             Failed \<Rightarrow> None
           | Fetched contractBalanceState \<Rightarrow>
               (case task_wallet task of
                  None \<Rightarrow> None
                | Some w \<Rightarrow>
                    let contractInit = zilParamsToMap contractInitParams;
                        bals = balances_of BN contractBalanceState;
                        own = (case obj_get bals (toLowerCase (byte20 w)) of
                                 Some b \<Rightarrow> b
                               | None \<Rightarrow> 0)
                    in Some
                         \<lparr> u_address = address (task_token task),
                           u_initialized = Some True,
                           u_isZil = Some False,
                           u_dirty = Some False,
                           u_loading = Some False,
                           u_decimals = Some (decimals (task_token task)),
                           u_symbol = Some (obj_get contractInit ''symbol''),
                           u_name = Some (obj_get contractInit ''name''),
                           u_balance = Some own,
                           u_init_supply = Some (BN_opt BN (obj_get contractInit ''init_supply'')),
                           u_balances = Some bals,
                           u_pool = Some (getPool chain (address (task_token task))) \<rparr>)))"

text \<open>
  How a task ends, with the store it leaves. The part of a task after its last \<^verbatim>\<open>await\<close>
  runs without interruption, on the store as it is at that moment (\<open>st\<close>).
\<close>

datatype task_end = Resolved | Rejected

text \<open>
  The native-currency part of the task. It returns at once without a private key
  (\<^verbatim>\<open>!privateKey\<close> also holds for the empty string). When the reconnection answers without
  a wallet, \<^verbatim>\<open>Wallet.update\<close> is dispatched with it and reading \<^verbatim>\<open>wallet.balance\<close> throws.
\<close>

definition zil_refresh ::
  "'p Chain \<Rightarrow> 'p Task \<Rightarrow> ('p, 'r) RootState \<Rightarrow> task_end \<times> ('p, 'r) RootState" where
  "zil_refresh chain task st =
     (case task_wallet task of
        None \<Rightarrow> (Resolved, st)
      | Some w0 \<Rightarrow>
          (case privateKey w0 of
             None \<Rightarrow> (Resolved, st)
           | Some pk \<Rightarrow>
               if pk = [] then (Resolved, st)
               else (case connectWalletPrivateKey chain pk (network w0) of
                       Failed \<Rightarrow> (Rejected, st)
                     | Fetched None \<Rightarrow> (Rejected, Wallet_update None st)
                     | Fetched (Some w) \<Rightarrow>
                         (Resolved,
                          Token_update
                            ((update_props (task_address task))
                               \<lparr> u_loading := Some False,
                                 u_balance := Some (wallet_balance w),
                                 u_balances := Some [(toLowerCase (byte20 w), wallet_balance w)] \<rparr>)
                            (Wallet_update (Some w) st)))))"

definition queryToken_task ::
  "(string \<Rightarrow> int) \<Rightarrow> 'p Chain \<Rightarrow> 'p Task \<Rightarrow> ('p, 'r) RootState
     \<Rightarrow> task_end \<times> ('p, 'r) RootState" where
  "queryToken_task BN chain task st =
     (if isZil (task_token task) then zil_refresh chain task st
      else case contract_tokenInfo BN chain task of
             None \<Rightarrow> (Rejected, st)
           | Some tokenInfo \<Rightarrow> (Resolved, Token_update tokenInfo st))"

text \<open>
  Modelled from the spec: \<^verbatim>\<open>runQueryToken\<close> comes from the hook \<^verbatim>\<open>useAsyncTask\<close>
  (\<^verbatim>\<open>app/utils\<close>), which is not among the sources. By the spec a failure of a refresh
  task is caught at the task boundary and does not reach the scheduler loop: the runner
  returns normally with the store as the task left it. The runner is given only the task
  name and the closure, so it dispatches nothing to the token store itself.
\<close>

definition runQueryToken ::
  "(('p, 'r) RootState \<Rightarrow> task_end \<times> ('p, 'r) RootState) \<Rightarrow> ('p, 'r) RootState \<Rightarrow> ('p, 'r) RootState" where
  "runQueryToken task st = snd (task st)"

text \<open>The constructor of \<^verbatim>\<open>BN\<close> on decimal digits, for concrete inputs.\<close>

definition BN_dec :: "string \<Rightarrow> int" where
  "BN_dec s = foldl (\<lambda>n c. n * 10 + (int (of_char c) - 48)) 0 s"

text \<open>The entries the refresh loop does not skip: those not initialized, and those dirty.\<close>

definition needs_refresh :: "'p TokenInfo obj \<Rightarrow> string \<Rightarrow> bool" where
  "needs_refresh toks a =
     (case obj_get toks a of None \<Rightarrow> False | Some t \<Rightarrow> \<not> (initialized t \<and> \<not> dirty t))"

section \<open>Concrete inputs\<close>

text \<open>
  A wallet with the address \<^verbatim>\<open>0xAAA\<close> and the balance 500; a token as the initializer
  maps it; a store with that token and the pseudo-token; a store before the
  initializer has run; the refresh task of the token; a chain whose balance table has
  one owner with the balance \<^verbatim>\<open>"5"\<close>; and a chain whose reads all fail.
\<close>

definition ex_wallet :: ConnectedWallet where
  "ex_wallet = \<lparr> byte20 = ''0xAAA'', privateKey = Some ''key'', wallet_balance = 500,
                 network = ''TestNet'' \<rparr>"

definition ex_token :: "unit TokenInfo" where
  "ex_token = mapZilswapToken \<lparr> td_address = ''0x01'', td_decimals = 6, td_symbol = ''T'' \<rparr>"

definition ex_store :: "(unit, unit) RootState" where
  "ex_store = \<lparr> wallet = Some ex_wallet,
                token = \<lparr> tokens_initialized = True,
                          tokens = [(''0x01'', ex_token), (''zil'', zil_token ''0x00'' ex_wallet)] \<rparr>,
                transactions = [] \<rparr>"

definition ex_fresh_store :: "(unit, unit) RootState" where
  "ex_fresh_store = \<lparr> wallet = Some ex_wallet,
                      token = \<lparr> tokens_initialized = False, tokens = [] \<rparr>,
                      transactions = [] \<rparr>"

definition ex_task :: "unit Task" where
  "ex_task = \<lparr> task_address = ''0x01'', task_token = ex_token, task_wallet = Some ex_wallet \<rparr>"

definition ex_chain :: "string \<Rightarrow> unit Chain" where
  "ex_chain owner =
     \<lparr> getInit = (\<lambda>a. Fetched [\<lparr> vname = ''symbol'', vtype = ''String'', value = ''TKN'' \<rparr>]),
       getBalancesMap = (\<lambda>a. Fetched [(owner, ''5'')]),
       getPool = (\<lambda>a. None),
       connectWalletPrivateKey = (\<lambda>pk n. Failed) \<rparr>"

definition ex_chain_down :: "unit Chain" where
  "ex_chain_down =
     \<lparr> getInit = (\<lambda>a. Failed),
       getBalancesMap = (\<lambda>a. Failed),
       getPool = (\<lambda>a. None),
       connectWalletPrivateKey = (\<lambda>pk n. Failed) \<rparr>"

section \<open>Helper lemmas\<close>

lemma find_app:
  "find P (xs @ ys) = (case find P xs of None \<Rightarrow> find P ys | Some x \<Rightarrow> Some x)"
  by (induction xs) simp_all

lemma obj_get_set:
  "obj_get (obj_set ob k v) n = (if n = k then Some v else obj_get ob n)"
  by (simp add: obj_get_def obj_set_def update_conv')

lemma zilParamsToMap_loop_get:
  "obj_get (zilParamsToMap_loop params acc) n =
     (if n = ''__proto__'' then obj_get acc n
      else case find (\<lambda>p. vname p = n) (rev params) of
             Some p \<Rightarrow> Some (value p)
           | None \<Rightarrow> obj_get acc n)"
  by (induction params arbitrary: acc)
     (auto simp add: find_app obj_get_set prop_assign_def split: option.split)

subsection \<open>Objects and the store\<close>

lemma obj_get_in_keys: "obj_get ob k = Some v \<Longrightarrow> k \<in> set (map fst ob)"
  by (auto simp: obj_get_def dest: map_of_SomeD intro: rev_image_eqI)

lemma set_update_sub:
  "set (AList.update k v al) \<subseteq> insert (k, v) (set al)"
  by (induction al) auto

lemma filter_update_only:
  "\<forall>e \<in> set al. \<not> P (snd e) \<Longrightarrow> P v \<Longrightarrow>
   filter (\<lambda>e. P (snd e)) (AList.update k v al) = [(k, v)]"
  by (induction al) auto

lemma Token_update_get:
  "obj_get (tokens (token (Token_update u s))) k =
     (if k = u_address u then map_option (merge_update u) (obj_get (tokens (token s)) k)
      else obj_get (tokens (token s)) k)"
  by (simp add: Token_update_def obj_get_set split: option.split)

lemma Token_update_keys:
  "map fst (tokens (token (Token_update u s))) = map fst (tokens (token s))"
  by (auto simp add: Token_update_def obj_set_def obj_get_def update_keys map_of_eq_None_iff
      split: option.split)

lemma merge_update_idem: "merge_update u (merge_update u t) = merge_update u t"
  by (simp add: merge_update_def override_def split: option.split)

lemma Token_update_idem: "Token_update u (Token_update u s) = Token_update u s"
proof (cases "obj_get (tokens (token s)) (u_address u)")
  case None
  then show ?thesis by (simp add: Token_update_def)
next
  case (Some t)
  then show ?thesis
    by (simp add: Token_update_def obj_get_set merge_update_idem) (simp add: obj_set_def)
qed

subsection \<open>The observer\<close>

lemma upsert_has_hash: "find (\<lambda>t. hash t = hash p) (upsert p ts) \<noteq> None"
  by (induction ts) auto

lemma observer_callback_eq:
  "observer_callback h s r st =
     Token_invalidate (Transaction_update \<lparr> hash = h, status = s, txReceipt = r \<rparr> st)"
  using upsert_has_hash [of "\<lparr> hash = h, status = s, txReceipt = r \<rparr>" "transactions st"]
  by (simp add: observer_callback_def Let_def Transaction_update_def)

subsection \<open>The initializer\<close>

lemma init_loop_not_zil:
  "\<forall>e \<in> set toks. \<not> isZil (snd e) \<Longrightarrow> \<forall>t \<in> set ts. \<not> isZil t \<Longrightarrow>
   \<forall>e \<in> set (init_loop ts toks). \<not> isZil (snd e)"
proof (induction ts arbitrary: toks)
  case Nil
  then show ?case by simp
next
  case (Cons t ts)
  have "\<forall>e \<in> set (obj_set toks (address t) t). \<not> isZil (snd e)"
    using Cons.prems set_update_sub [of "address t" t toks]
    by (auto simp: obj_set_def)
  with Cons show ?case by simp
qed

lemma init_tokens_zil:
  "filter (\<lambda>e. isZil (snd e)) (init_tokens ZH zts w) = [(''zil'', zil_token ZH w)]"
proof -
  have "\<forall>e \<in> set (init_loop (map mapZilswapToken zts) []). \<not> isZil (snd e)"
    by (rule init_loop_not_zil) (simp_all add: mapZilswapToken_def)
  moreover have "isZil (zil_token ZH w)"
    by (simp add: zil_token_def)
  ultimately show ?thesis
    unfolding init_tokens_def obj_set_def by (rule filter_update_only)
qed

lemma init_tokens_get_zil:
  "obj_get (init_tokens ZH zts w) ''zil'' = Some (zil_token ZH w)"
  by (simp add: init_tokens_def obj_get_set)

subsection \<open>The scheduler pass\<close>

lemma scheduler_loop_eq:
  "scheduler_loop ks toks w (st, tasks) =
     (fold (\<lambda>a. Token_update (flip_props a)) (filter (needs_refresh toks) ks) st,
      tasks @ map (\<lambda>a. \<lparr> task_address = a, task_token = the (obj_get toks a), task_wallet = w \<rparr>)
                (filter (needs_refresh toks) ks))"
  by (induction ks arbitrary: st tasks) (auto simp: needs_refresh_def split: option.split)

lemma fold_flip_get:
  "distinct as \<Longrightarrow>
   obj_get (tokens (token (fold (\<lambda>a. Token_update (flip_props a)) as st))) k =
     (if k \<in> set as then map_option (merge_update (flip_props k)) (obj_get (tokens (token st)) k)
      else obj_get (tokens (token st)) k)"
proof (induction as arbitrary: st)
  case Nil
  show ?case by simp
next
  case (Cons a as)
  have fa: "u_address (flip_props a :: 'a TokenUpdateProps) = a"
    by (simp add: flip_props_def update_props_def)
  from Cons.prems have d: "distinct as" and na: "a \<notin> set as" by simp_all
  show ?case
    using na by (auto simp add: Cons.IH [OF d] Token_update_get fa)
qed

lemma fold_flip_keys:
  "map fst (tokens (token (fold (\<lambda>a. Token_update (flip_props a)) as st))) =
   map fst (tokens (token st))"
  by (induction as arbitrary: st) (simp_all add: Token_update_keys)

lemma filter_task_address:
  "distinct as \<Longrightarrow>
   filter (\<lambda>x. task_address x = k)
     (map (\<lambda>a. \<lparr> task_address = a, task_token = f a, task_wallet = w \<rparr>) as) =
   (if k \<in> set as then [\<lparr> task_address = k, task_token = f k, task_wallet = w \<rparr>] else [])"
  by (induction as) auto

lemma flip_flags:
  "loading (merge_update (flip_props k) t) = Some True
   \<and> dirty (merge_update (flip_props k) t) = False
   \<and> initialized (merge_update (flip_props k) t) = True"
  by (simp add: merge_update_def flip_props_def update_props_def override_def)

lemma scheduler_pass_entry:
  assumes "distinct (map fst (tokens (token st)))" and "obj_get (tokens (token st)) k = Some t"
  shows "obj_get (tokens (token (fst (scheduler_pass st)))) k =
           (if initialized t \<and> \<not> dirty t then Some t else Some (merge_update (flip_props k) t))"
    and "filter (\<lambda>x. task_address x = k) (snd (scheduler_pass st)) =
           (if initialized t \<and> \<not> dirty t then []
            else [\<lparr> task_address = k, task_token = t, task_wallet = wallet st \<rparr>])"
proof -
  let ?ks = "filter (needs_refresh (tokens (token st))) (map fst (tokens (token st)))"
  have d: "distinct ?ks" using assms(1) by simp
  have mem: "k \<in> set ?ks \<longleftrightarrow> \<not> (initialized t \<and> \<not> dirty t)"
    using obj_get_in_keys [OF assms(2)] assms(2) by (simp add: needs_refresh_def)
  show "obj_get (tokens (token (fst (scheduler_pass st)))) k =
           (if initialized t \<and> \<not> dirty t then Some t else Some (merge_update (flip_props k) t))"
    unfolding scheduler_pass_def scheduler_loop_eq fst_conv fold_flip_get [OF d]
    using mem assms(2) by auto
  show "filter (\<lambda>x. task_address x = k) (snd (scheduler_pass st)) =
           (if initialized t \<and> \<not> dirty t then []
            else [\<lparr> task_address = k, task_token = t, task_wallet = wallet st \<rparr>])"
    unfolding scheduler_pass_def scheduler_loop_eq snd_conv append_Nil filter_task_address [OF d]
    using mem assms(2) by auto
qed

lemma scheduler_pass_keys:
  "map fst (tokens (token (fst (scheduler_pass st)))) = map fst (tokens (token st))"
  by (simp add: scheduler_pass_def scheduler_loop_eq fold_flip_keys)

subsection \<open>The refresh task\<close>

lemma balances_loop_get:
  "obj_get (balances_loop BN ks cbs acc) k =
     (if k \<in> set ks
      then (case obj_get cbs k of Some v \<Rightarrow> Some (BN v) | None \<Rightarrow> obj_get acc k)
      else obj_get acc k)"
  by (induction ks arbitrary: acc) (auto simp: obj_get_set split: option.split)

lemma balances_of_get:
  "obj_get (balances_of BN cbs) k = map_option BN (obj_get cbs k)"
proof (cases "obj_get cbs k")
  case None
  then show ?thesis
    by (simp add: balances_of_def balances_loop_get) (simp add: obj_get_def)
next
  case (Some v)
  then have "k \<in> set (map fst cbs)"
    by (rule obj_get_in_keys)
  with Some show ?thesis
    by (simp add: balances_of_def balances_loop_get)
qed

lemma contract_tokenInfo_token:
  "address t' = address t \<Longrightarrow> decimals t' = decimals t \<Longrightarrow>
   contract_tokenInfo BN chain \<lparr> task_address = k, task_token = t', task_wallet = w \<rparr> =
   contract_tokenInfo BN chain \<lparr> task_address = k, task_token = t, task_wallet = w \<rparr>"
  by (simp add: contract_tokenInfo_def Let_def split: fetch.split option.split)

lemma contract_tokenInfo_fields:
  "contract_tokenInfo BN chain task = Some p \<Longrightarrow>
   u_address p = address (task_token task) \<and> u_decimals p = Some (decimals (task_token task))
   \<and> u_isZil p = Some False"
  by (auto simp: contract_tokenInfo_def Let_def split: fetch.splits option.splits)

lemma rejected_keeps_tokens:
  "fst (queryToken_task BN chain task s) = Rejected \<Longrightarrow>
   token (runQueryToken (queryToken_task BN chain task) s) = token s"
  by (auto simp: runQueryToken_def queryToken_task_def zil_refresh_def Wallet_update_def
      split: option.splits fetch.splits if_splits)

subsection \<open>The concrete inputs\<close>

lemma ex_store_keys: "distinct (map fst (tokens (token ex_store)))"
  by (simp add: ex_store_def)

lemma ex_store_get: "obj_get (tokens (token ex_store)) ''0x01'' = Some ex_token"
  by (simp add: ex_store_def obj_get_def)

lemma ex_store_wallet: "wallet ex_store = Some ex_wallet"
  by (simp add: ex_store_def)

lemma ex_token_stale: "\<not> (initialized ex_token \<and> \<not> dirty ex_token)"
  by (simp add: ex_token_def mapZilswapToken_def)

lemma ex_token_contract: "\<not> isZil ex_token"
  by (simp add: ex_token_def mapZilswapToken_def)

lemma ex_rejected:
  "fst (queryToken_task BN_dec ex_chain_down
          \<lparr> task_address = ''0x01'', task_token = ex_token, task_wallet = wallet ex_store \<rparr>
          (fst (scheduler_pass ex_store))) = Rejected"
  by (simp add: queryToken_task_def contract_tokenInfo_def ex_chain_down_def ex_token_def
      mapZilswapToken_def)

section \<open>TokenSnapshotMapper\<close>

text \<open>
  C7. For every token descriptor, \<open>mapZilswapToken\<close> returns a record that is not
  initialized, not dirty and not the native currency, with balance 0, initial supply 0,
  no per-owner balances and the empty name, and with the descriptor's address, decimals
  and symbol. The function is total: it has no failure.
\<close>

theorem mapZilswapToken_defaults:
  "initialized (mapZilswapToken d) = False
   \<and> dirty (mapZilswapToken d) = False
   \<and> isZil (mapZilswapToken d) = False
   \<and> balance (mapZilswapToken d) = 0
   \<and> init_supply (mapZilswapToken d) = 0
   \<and> balances (mapZilswapToken d) = []
   \<and> name (mapZilswapToken d) = Some []
   \<and> address (mapZilswapToken d) = td_address d
   \<and> decimals (mapZilswapToken d) = td_decimals d
   \<and> symbol (mapZilswapToken d) = Some (td_symbol d)"
  by (simp add: mapZilswapToken_def)

section \<open>ContractParamDecoder\<close>

text \<open>
  C6, as amended. The empty sequence gives the empty mapping without failure. For every
  sequence and every name other than \<^verbatim>\<open>__proto__\<close>, the mapping holds the value of the
  last entry with that name (the first one found from the end), and no property when no
  entry has the name. An entry named \<^verbatim>\<open>__proto__\<close> is not stored: the mapping never has
  a property of that name.
\<close>

theorem zilParamsToMap_last_wins_but_proto:
  "zilParamsToMap [] = []
   \<and> obj_get (zilParamsToMap params) n =
       (if n = ''__proto__'' then None
        else map_option value (find (\<lambda>p. vname p = n) (rev params)))"
  by (simp add: zilParamsToMap_def zilParamsToMap_loop_get)
     (simp add: obj_get_def split: option.split)

text \<open>
  C6 as stated fails: for the one entry named \<^verbatim>\<open>__proto__\<close> with the value \<^verbatim>\<open>x\<close>, the
  mapping returned is empty and has no value for that name.
\<close>

theorem zilParamsToMap_proto_not_stored:
  "zilParamsToMap [\<lparr> vname = ''__proto__'', vtype = ''String'', value = ''x'' \<rparr>] = []
   \<and> obj_get (zilParamsToMap [\<lparr> vname = ''__proto__'', vtype = ''String'', value = ''x'' \<rparr>])
         ''__proto__'' = None"
  by (simp add: zilParamsToMap_def prop_assign_def obj_get_def)

section \<open>Preference reducer\<close>

text \<open>
  C9. For every state \<open>S\<close> and every action whose type is neither \<open>INIT\<close> nor \<open>UPDATE\<close>,
  the reducer returns \<open>S\<close> and leaves \<^verbatim>\<open>localStorage\<close> as it was.
\<close>

theorem reducer_other_action_frame:
  "atype a \<noteq> INIT T \<Longrightarrow> atype a \<noteq> UPDATE T \<Longrightarrow> reducer T init (Some S) a ls = (S, ls)"
  by (simp add: reducer_def)

theorem reducer_other_action_frame_witness:
  "atype \<lparr> atype = ''TOKEN_UPDATE'', payload = \<lparr> upd_theme = Some ''dark'' \<rparr> \<rparr>
     \<noteq> INIT \<lparr> INIT = ''PREFERENCE_INIT'', UPDATE = ''PREFERENCE_UPDATE'' \<rparr>
   \<and> atype \<lparr> atype = ''TOKEN_UPDATE'', payload = \<lparr> upd_theme = Some ''dark'' \<rparr> \<rparr>
     \<noteq> UPDATE \<lparr> INIT = ''PREFERENCE_INIT'', UPDATE = ''PREFERENCE_UPDATE'' \<rparr>
   \<and> reducer \<lparr> INIT = ''PREFERENCE_INIT'', UPDATE = ''PREFERENCE_UPDATE'' \<rparr>
        \<lparr> theme = ''light'' \<rparr> (Some \<lparr> theme = ''light'' \<rparr>)
        \<lparr> atype = ''TOKEN_UPDATE'', payload = \<lparr> upd_theme = Some ''dark'' \<rparr> \<rparr> Map.empty
      = (\<lparr> theme = ''light'' \<rparr>, Map.empty)"
  using reducer_other_action_frame
    [of "\<lparr> atype = ''TOKEN_UPDATE'', payload = \<lparr> upd_theme = Some ''dark'' \<rparr> \<rparr>"
        "\<lparr> INIT = ''PREFERENCE_INIT'', UPDATE = ''PREFERENCE_UPDATE'' \<rparr>"
        "\<lparr> theme = ''light'' \<rparr>" "\<lparr> theme = ''light'' \<rparr>" Map.empty]
  by simp

text \<open>
  C10. For an \<open>UPDATE\<close> action (one whose type is not also \<open>INIT\<close>), \<^verbatim>\<open>localStorage\<close>
  changes only by the theme key being set to the payload's theme, and that happens
  exactly when the payload has a non-empty theme that differs from the current theme and
  is \<^verbatim>\<open>"dark"\<close> or \<^verbatim>\<open>"light"\<close>. The payload is merged into the state in every case: a
  payload theme becomes the state's theme whether or not it is valid.
\<close>

theorem reducer_update_persists_valid_theme_only:
  assumes "atype a = UPDATE T" and "atype a \<noteq> INIT T"
  shows "snd (reducer T init (Some S) a ls) =
           (case upd_theme (payload a) of
              None \<Rightarrow> ls
            | Some t \<Rightarrow>
                if t \<noteq> [] \<and> t \<noteq> theme S \<and> (t = ''dark'' \<or> t = ''light'')
                then ls(LOCAL_STORAGE_KEY_THEME \<mapsto> t) else ls)
         \<and> theme (fst (reducer T init (Some S) a ls)) =
           (case upd_theme (payload a) of None \<Rightarrow> theme S | Some t \<Rightarrow> t)"
  using assms
  by (simp add: reducer_def checkToSaveThemePreference_def spread_payload_def VALID_THEMES_def
      split: option.split)

theorem reducer_update_persists_valid_theme_only_witness:
  "reducer \<lparr> INIT = ''PREFERENCE_INIT'', UPDATE = ''PREFERENCE_UPDATE'' \<rparr>
      \<lparr> theme = ''light'' \<rparr> (Some \<lparr> theme = ''light'' \<rparr>)
      \<lparr> atype = ''PREFERENCE_UPDATE'', payload = \<lparr> upd_theme = Some ''blue'' \<rparr> \<rparr> Map.empty
    = (\<lparr> theme = ''blue'' \<rparr>, Map.empty)"
  using reducer_update_persists_valid_theme_only
    [of "\<lparr> atype = ''PREFERENCE_UPDATE'', payload = \<lparr> upd_theme = Some ''blue'' \<rparr> \<rparr>"
        "\<lparr> INIT = ''PREFERENCE_INIT'', UPDATE = ''PREFERENCE_UPDATE'' \<rparr>"
        "\<lparr> theme = ''light'' \<rparr>" "\<lparr> theme = ''light'' \<rparr>" Map.empty]
  by (simp add: prod_eq_iff)

section \<open>TransactionObserver: invalidation\<close>


section \<open>BootstrapInitializer: the native-currency entry\<close>

text \<open>
  C4. When the initializer runs (the collection is not initialized and a wallet is
  connected) with a wallet of address \<^verbatim>\<open>0xAAA\<close> and balance 500, the token collection has
  exactly one native-currency entry, under the key \<^verbatim>\<open>zil\<close>; its balance is 500, its
  balance mapping has 500 at the key \<^verbatim>\<open>0xaaa\<close>, and it is initialized.
\<close>

theorem butler_init_zil_entry:
  assumes "\<not> tokens_initialized (token st)" and "wallet st = Some w"
    and "byte20 w = ''0xAAA''" and "wallet_balance w = 500"
  shows "\<exists>z. filter (\<lambda>e. isZil (snd e)) (tokens (token (butler_init ZH zts st))) = [(''zil'', z)]
           \<and> obj_get (tokens (token (butler_init ZH zts st))) ''zil'' = Some z
           \<and> balance z = 500
           \<and> obj_get (balances z) ''0xaaa'' = Some 500
           \<and> initialized z"
proof -
  have lc: "toLowerCase (byte20 w) = ''0xaaa''"
    using assms(3) by (simp add: toLowerCase_def lower_char_def)
  have coll: "tokens (token (butler_init ZH zts st)) = init_tokens ZH zts w"
    using assms(1,2) by (simp add: butler_init_def Token_init_def)
  have "balance (zil_token ZH w) = 500 \<and> obj_get (balances (zil_token ZH w)) ''0xaaa'' = Some 500
        \<and> initialized (zil_token ZH w)"
    using lc assms(4) by (simp add: zil_token_def obj_get_def)
  then show ?thesis
    unfolding coll using init_tokens_zil init_tokens_get_zil by blast
qed

theorem butler_init_zil_entry_witness:
  "\<exists>z. filter (\<lambda>e. isZil (snd e))
          (tokens (token (butler_init ''0x00''
             [\<lparr> td_address = ''0x01'', td_decimals = 6, td_symbol = ''T'' \<rparr>] ex_fresh_store)))
        = [(''zil'', z)]
      \<and> obj_get (tokens (token (butler_init ''0x00''
             [\<lparr> td_address = ''0x01'', td_decimals = 6, td_symbol = ''T'' \<rparr>] ex_fresh_store)))
           ''zil'' = Some z
      \<and> balance z = 500
      \<and> obj_get (balances z) ''0xaaa'' = Some 500
      \<and> initialized z"
proof -
  have h1: "\<not> tokens_initialized (token ex_fresh_store)"
    and h2: "wallet ex_fresh_store = Some ex_wallet"
    by (simp_all add: ex_fresh_store_def)
  have h3: "byte20 ex_wallet = ''0xAAA''" and h4: "wallet_balance ex_wallet = 500"
    by (simp_all add: ex_wallet_def)
  show ?thesis
    by (rule butler_init_zil_entry [OF h1 h2 h3 h4])
qed

section \<open>TokenRefreshScheduler: one pass\<close>

text \<open>
  C2. In a collection with distinct keys, take the entry \<open>t\<close> under the key \<open>k\<close>. If \<open>t\<close>
  is initialized and not dirty, the pass leaves the entry as it is and dispatches no
  task for \<open>k\<close>. Otherwise, when the pass returns (no task has resolved yet), the entry
  has \<^verbatim>\<open>loading=true\<close>, \<^verbatim>\<open>dirty=false\<close> and \<^verbatim>\<open>initialized=true\<close>, and exactly one task was
  dispatched for \<open>k\<close>: the one closed over \<open>k\<close>, \<open>t\<close> and the wallet.
\<close>

theorem scheduler_pass_flips_and_dispatches_once:
  assumes "distinct (map fst (tokens (token st)))" and "obj_get (tokens (token st)) k = Some t"
  shows "if initialized t \<and> \<not> dirty t
         then obj_get (tokens (token (fst (scheduler_pass st)))) k = Some t
              \<and> filter (\<lambda>x. task_address x = k) (snd (scheduler_pass st)) = []
         else (\<exists>t'. obj_get (tokens (token (fst (scheduler_pass st)))) k = Some t'
                 \<and> loading t' = Some True \<and> dirty t' = False \<and> initialized t' = True)
              \<and> filter (\<lambda>x. task_address x = k) (snd (scheduler_pass st)) =
                  [\<lparr> task_address = k, task_token = t, task_wallet = wallet st \<rparr>]"
  using scheduler_pass_entry [OF assms] flip_flags [of k t] by simp

theorem scheduler_pass_flips_and_dispatches_once_witness:
  "(\<exists>t'. obj_get (tokens (token (fst (scheduler_pass ex_store)))) ''0x01'' = Some t'
        \<and> loading t' = Some True \<and> dirty t' = False \<and> initialized t' = True)
   \<and> filter (\<lambda>x. task_address x = ''0x01'') (snd (scheduler_pass ex_store)) = [ex_task]"
  using scheduler_pass_flips_and_dispatches_once [OF ex_store_keys ex_store_get] ex_token_stale
  by (simp add: ex_store_wallet ex_task_def)

section \<open>BalanceReconciler: the wallet's own balance\<close>

text \<open>
  C3, as amended. When the reads of a contract-backed refresh succeed, the own balance
  it dispatches is the value of the fetched balance table at the key that is exactly
  the lower-cased wallet address, converted by \<open>BN\<close>, and zero when the table has no
  such key. Only the wallet address is lower-cased; the keys of the table are used as
  they were fetched.
\<close>

theorem contract_own_balance_exact_key:
  assumes "getInit chain (task_address task) = Fetched ps"
    and "getBalancesMap chain (task_address task) = Fetched tbl"
    and "task_wallet task = Some w"
  shows "\<exists>p. contract_tokenInfo BN chain task = Some p
           \<and> u_balance p =
               Some (case obj_get tbl (toLowerCase (byte20 w)) of
                       Some v \<Rightarrow> BN v
                     | None \<Rightarrow> 0)"
  using assms
  by (simp add: contract_tokenInfo_def Let_def balances_of_get split: option.split)

theorem contract_own_balance_exact_key_witness:
  "\<exists>p. contract_tokenInfo BN_dec (ex_chain ''0xaaa'') ex_task = Some p
      \<and> u_balance p = Some 5"
proof -
  have h1: "getInit (ex_chain ''0xaaa'') (task_address ex_task)
              = Fetched [\<lparr> vname = ''symbol'', vtype = ''String'', value = ''TKN'' \<rparr>]"
    and h2: "getBalancesMap (ex_chain ''0xaaa'') (task_address ex_task) = Fetched [(''0xaaa'', ''5'')]"
    by (simp_all add: ex_chain_def)
  have h3: "task_wallet ex_task = Some ex_wallet"
    by (simp add: ex_task_def)
  have lc: "toLowerCase (byte20 ex_wallet) = ''0xaaa''"
    by (simp add: ex_wallet_def toLowerCase_def lower_char_def)
  have v: "BN_dec ''5'' = 5"
    by (simp add: BN_dec_def)
  show ?thesis
    using contract_own_balance_exact_key [OF h1 h2 h3, of BN_dec]
    by (simp add: lc v obj_get_def)
qed

text \<open>
  C3 as stated fails: the fetched table has the balance \<^verbatim>\<open>"5"\<close> under \<^verbatim>\<open>0xAAA\<close>, which is
  the wallet's address letter for letter, and the own balance dispatched is 0.
\<close>

theorem contract_own_balance_upper_case_key_missed:
  "obj_get [(''0xAAA'', ''5'')] (byte20 ex_wallet) = Some ''5''
   \<and> BN_dec ''5'' = 5
   \<and> getBalancesMap (ex_chain ''0xAAA'') ''0x01'' = Fetched [(''0xAAA'', ''5'')]
   \<and> map_option u_balance (contract_tokenInfo BN_dec (ex_chain ''0xAAA'') ex_task) = Some (Some 0)"
  by (simp add: ex_chain_def ex_task_def ex_wallet_def ex_token_def mapZilswapToken_def
      contract_tokenInfo_def balances_of_def obj_get_def obj_set_def BN_dec_def
      toLowerCase_def lower_char_def Let_def)

section \<open>BalanceReconciler: running twice\<close>

text \<open>
  C8. Take a contract-backed token \<open>t\<close> stored under \<open>k\<close>, and run its refresh task on
  the store. A second run against the same chain and wallet, started from the record
  the store then holds under \<open>k\<close>, computes the same output as the first (the same
  record to dispatch, or the same failure), and leaves the store as the first run
  left it.
\<close>

theorem contract_refresh_idempotent:
  assumes "\<not> isZil t" and "obj_get (tokens (token st)) k = Some t"
    and "st1 = runQueryToken (queryToken_task BN chain
                 \<lparr> task_address = k, task_token = t, task_wallet = w \<rparr>) st"
  shows "\<exists>t1. obj_get (tokens (token st1)) k = Some t1
           \<and> contract_tokenInfo BN chain \<lparr> task_address = k, task_token = t1, task_wallet = w \<rparr>
             = contract_tokenInfo BN chain \<lparr> task_address = k, task_token = t, task_wallet = w \<rparr>
           \<and> runQueryToken (queryToken_task BN chain
                 \<lparr> task_address = k, task_token = t1, task_wallet = w \<rparr>) st1 = st1"
proof (cases "contract_tokenInfo BN chain \<lparr> task_address = k, task_token = t, task_wallet = w \<rparr>")
  case None
  then have "st1 = st"
    using assms(1,3) by (simp add: runQueryToken_def queryToken_task_def)
  with None assms(1,2) show ?thesis
    by (simp add: runQueryToken_def queryToken_task_def)
next
  case (Some p)
  then have st1: "st1 = Token_update p st"
    using assms(1,3) by (simp add: runQueryToken_def queryToken_task_def)
  from contract_tokenInfo_fields [OF Some]
  have p: "u_address p = address t" "u_decimals p = Some (decimals t)" "u_isZil p = Some False"
    by simp_all
  define t1 where "t1 = (if k = address t then merge_update p t else t)"
  have get: "obj_get (tokens (token st1)) k = Some t1"
    using assms(2) p(1) by (auto simp add: st1 Token_update_get t1_def)
  have same: "address t1 = address t" "decimals t1 = decimals t" "\<not> isZil t1"
    using p assms(1) by (simp_all add: t1_def merge_update_def override_def)
  have out: "contract_tokenInfo BN chain \<lparr> task_address = k, task_token = t1, task_wallet = w \<rparr>
             = Some p"
    using contract_tokenInfo_token [OF same(1,2)] Some by simp
  have "runQueryToken (queryToken_task BN chain
          \<lparr> task_address = k, task_token = t1, task_wallet = w \<rparr>) st1 = st1"
    using same(3) out by (simp add: runQueryToken_def queryToken_task_def st1 Token_update_idem)
  with get out Some show ?thesis by auto
qed

theorem contract_refresh_idempotent_witness:
  "\<exists>t1. obj_get (tokens (token (runQueryToken (queryToken_task BN_dec (ex_chain ''0xaaa'') ex_task)
                                   ex_store))) ''0x01'' = Some t1
      \<and> contract_tokenInfo BN_dec (ex_chain ''0xaaa'')
           \<lparr> task_address = ''0x01'', task_token = t1, task_wallet = Some ex_wallet \<rparr>
         = contract_tokenInfo BN_dec (ex_chain ''0xaaa'') ex_task
      \<and> runQueryToken (queryToken_task BN_dec (ex_chain ''0xaaa'')
           \<lparr> task_address = ''0x01'', task_token = t1, task_wallet = Some ex_wallet \<rparr>)
           (runQueryToken (queryToken_task BN_dec (ex_chain ''0xaaa'') ex_task) ex_store)
         = runQueryToken (queryToken_task BN_dec (ex_chain ''0xaaa'') ex_task) ex_store"
  using contract_refresh_idempotent [OF ex_token_contract ex_store_get refl,
      of BN_dec "ex_chain ''0xaaa''" "Some ex_wallet"]
  by (simp add: ex_task_def)

section \<open>A failed refresh\<close>

text \<open>
  C5, as amended. Take an entry \<open>t\<close> under \<open>k\<close> that a pass refreshes, and let its task
  fail. The failure stops at the task boundary, and the task leaves the token collection
  exactly as the pass left it: nothing is dispatched for the token on failure. So the
  entry keeps \<^verbatim>\<open>loading=true\<close>, \<^verbatim>\<open>dirty=false\<close> and \<^verbatim>\<open>initialized=true\<close> as the scheduler set
  them, and the next pass dispatches no task for \<open>k\<close>: the token is not refreshed again
  until something marks it dirty.
\<close>

theorem failed_refresh_leaves_flip:
  assumes "distinct (map fst (tokens (token st)))" and "obj_get (tokens (token st)) k = Some t"
    and "\<not> (initialized t \<and> \<not> dirty t)"
    and "fst (queryToken_task BN chain \<lparr> task_address = k, task_token = t, task_wallet = wallet st \<rparr>
               (fst (scheduler_pass st))) = Rejected"
  defines "st2 \<equiv> runQueryToken
             (queryToken_task BN chain \<lparr> task_address = k, task_token = t, task_wallet = wallet st \<rparr>)
             (fst (scheduler_pass st))"
  shows "token st2 = token (fst (scheduler_pass st))
         \<and> (\<exists>t2. obj_get (tokens (token st2)) k = Some t2
                \<and> loading t2 = Some True \<and> dirty t2 = False \<and> initialized t2 = True)
         \<and> filter (\<lambda>x. task_address x = k) (snd (scheduler_pass st2)) = []"
proof -
  have tok: "token st2 = token (fst (scheduler_pass st))"
    unfolding st2_def using assms(4) by (rule rejected_keeps_tokens)
  have get: "obj_get (tokens (token st2)) k = Some (merge_update (flip_props k) t)"
    using scheduler_pass_entry(1) [OF assms(1,2)] assms(3) by (simp add: tok)
  have d2: "distinct (map fst (tokens (token st2)))"
    using assms(1) by (simp add: tok scheduler_pass_keys)
  have "filter (\<lambda>x. task_address x = k) (snd (scheduler_pass st2)) = []"
    using scheduler_pass_entry(2) [OF d2 get] flip_flags [of k t] by simp
  with tok get flip_flags [of k t] show ?thesis by simp
qed

theorem failed_refresh_leaves_flip_witness:
  "token (runQueryToken (queryToken_task BN_dec ex_chain_down ex_task) (fst (scheduler_pass ex_store)))
     = token (fst (scheduler_pass ex_store))
   \<and> (\<exists>t2. obj_get (tokens (token (runQueryToken (queryToken_task BN_dec ex_chain_down ex_task)
                                      (fst (scheduler_pass ex_store))))) ''0x01'' = Some t2
          \<and> loading t2 = Some True \<and> dirty t2 = False \<and> initialized t2 = True)
   \<and> filter (\<lambda>x. task_address x = ''0x01'')
        (snd (scheduler_pass (runQueryToken (queryToken_task BN_dec ex_chain_down ex_task)
                               (fst (scheduler_pass ex_store))))) = []"
  using failed_refresh_leaves_flip [OF ex_store_keys ex_store_get ex_token_stale ex_rejected]
  unfolding ex_store_wallet ex_task_def .

text \<open>
  C5 as stated fails: the pass over \<open>ex_store\<close> dispatches the task of the token
  \<^verbatim>\<open>0x01\<close>, every read of the chain fails and the task is rejected, and the token's
  \<^verbatim>\<open>loading\<close> flag is still \<^verbatim>\<open>true\<close> afterwards.
\<close>

theorem failed_refresh_loading_not_cleared:
  "snd (scheduler_pass ex_store) = [ex_task]
   \<and> fst (queryToken_task BN_dec ex_chain_down ex_task (fst (scheduler_pass ex_store))) = Rejected
   \<and> map_option loading
       (obj_get (tokens (token (runQueryToken (queryToken_task BN_dec ex_chain_down ex_task)
                                  (fst (scheduler_pass ex_store))))) ''0x01'')
     = Some (Some True)"
  by (simp add: scheduler_pass_def ex_store_def ex_task_def ex_token_def ex_wallet_def
      ex_chain_down_def mapZilswapToken_def zil_token_def obj_get_def obj_set_def
      Token_update_def merge_update_def flip_props_def update_props_def override_def
      runQueryToken_def queryToken_task_def contract_tokenInfo_def)

end
